theory Spec2Isabelle
  imports Main "HOL-Library.AList"
begin

section \<open>Erasure-coding engine: data model\<close>

text \<open>
  The EC metadata sidecar (\<open>ec.Metadata\<close>). The struct declaration is not among the
  sources; the fields are the ones that \<open>putjogger.go\<close>, \<open>getjogger.go\<close> and the
  responder read and write. Go's \<open>int\<close> and \<open>int64\<close> are unbounded integers here: the
  code below only counts, compares and adds small quantities.
\<close>

record Metadata =
  Size :: int
  Data :: int
  Parity :: int
  IsCopy :: bool
  ObjCksum :: string
  ObjVersion :: string
  CksumType :: string
  CksumValue :: string
  SliceID :: int

text \<open>Errors of the engine, one constructor per \<open>return err\<close> of the modelled code.\<close>

datatype error =
    ErrorECDisabled
  | ErrorNoMetafile
  | ErrTooManySlicesMissing int int
  | ErrInsufficientTargets int int
  | ErrResetReader string
  | ErrRemoving string string
  | ErrIO string
  | ErrPanic string

text \<open>
  The outcome of a call: it returns a value, returns an error, panics, or never returns
  (\<open>Blocks\<close>: a wait that nothing ends).
\<close>

datatype 'a outcome = Ok 'a | Fail error | Panics string | Blocks

type_synonym nodemap = "(string \<times> Metadata) list"

section \<open>Get scheduler: \<open>getJogger.requestMeta\<close>\<close>

text \<open>
  The state shared by the goroutines of \<open>requestMeta\<close> and guarded by \<open>mtx\<close>:
  the map \<open>metas\<close>, the tally \<open>chk\<close> (a Go map read with its zero default), and the
  running maximum \<open>chkVal\<close>/\<open>chkMax\<close>.
\<close>

record metaTally =
  metas :: nodemap
  chk :: "string \<Rightarrow> int"
  chkVal :: string
  chkMax :: int

definition tally0 :: metaTally where
  "tally0 = \<lparr>metas = [], chk = (\<lambda>_. 0), chkVal = [], chkMax = 0\<rparr>"

text \<open>The critical section of one goroutine (between \<open>mtx.Lock\<close> and \<open>mtx.Unlock\<close>).\<close>

definition recvMeta :: "string \<Rightarrow> Metadata \<Rightarrow> metaTally \<Rightarrow> metaTally" where
  "recvMeta sid md t =
     (let cnt = chk t (ObjCksum md) + 1 in
      \<lparr>metas = AList.update sid md (metas t),
       chk = (chk t)(ObjCksum md := cnt),
       chkVal = (if cnt > chkMax t then ObjCksum md else chkVal t),
       chkMax = (if cnt > chkMax t then cnt else chkMax t)\<rparr>)"

text \<open>
  The broadcast. \<open>order\<close> lists the targets of the cluster map in the order in which
  their goroutines run their critical section (the mutex serialises them, in an order the
  scheduler chooses); \<open>requestECMeta\<close> is the answer of each target. The local target
  is skipped, and so is a target whose request failed.
\<close>

fun gatherMetas ::
  "string \<Rightarrow> (string \<Rightarrow> error + Metadata) \<Rightarrow> string list \<Rightarrow> metaTally \<Rightarrow> metaTally" where
  "gatherMetas self requestECMeta [] t = t"
| "gatherMetas self requestECMeta (n # ns) t =
     (if n = self then gatherMetas self requestECMeta ns t
      else case requestECMeta n of
             Inl e \<Rightarrow> gatherMetas self requestECMeta ns t
           | Inr md \<Rightarrow> gatherMetas self requestECMeta ns (recvMeta n md t))"

text \<open>
  The cleanup loop \<open>for k, v := range metas\<close>. Go leaves the iteration order of a map
  open: \<open>iter\<close> is the order in which the keys come. The last matching entry stays in
  \<open>meta\<close>; a mismatching one is only logged.
\<close>

fun selectNodes ::
  "string \<Rightarrow> nodemap \<Rightarrow> string list \<Rightarrow> Metadata option \<times> nodemap \<Rightarrow> Metadata option \<times> nodemap" where
  "selectNodes cv ms [] acc = acc"
| "selectNodes cv ms (k # ks) acc =
     (case map_of ms k of
        None \<Rightarrow> selectNodes cv ms ks acc
      | Some v \<Rightarrow>
          if ObjCksum v = cv
          then selectNodes cv ms ks (Some v, AList.update k v (snd acc))
          else selectNodes cv ms ks acc)"

definition requestMeta ::
  "string \<Rightarrow> (string \<Rightarrow> error + Metadata) \<Rightarrow> string list \<Rightarrow> string list
     \<Rightarrow> error + (Metadata option \<times> nodemap)" where
  "requestMeta self requestECMeta order iter =
     (let t = gatherMetas self requestECMeta order tally0 in
      if length (metas t) = 0 then Inl ErrorNoMetafile
      else Inr (selectNodes (chkVal t) (metas t) iter (None, [])))"

text \<open>
  Vocabulary of the statements: the responses that arrived, in arrival order, and the
  number of responses that carry a given object checksum.
\<close>

fun responses :: "string \<Rightarrow> (string \<Rightarrow> error + Metadata) \<Rightarrow> string list \<Rightarrow> nodemap" where
  "responses self requestECMeta [] = []"
| "responses self requestECMeta (n # ns) =
     (if n = self then responses self requestECMeta ns
      else case requestECMeta n of
             Inl e \<Rightarrow> responses self requestECMeta ns
           | Inr md \<Rightarrow> (n, md) # responses self requestECMeta ns)"

definition freq :: "string \<Rightarrow> nodemap \<Rightarrow> int" where
  "freq v rs = int (length (filter (\<lambda>r. ObjCksum (snd r) = v) rs))"

text \<open>The tally after the responses \<open>rs\<close> have gone through the critical section.\<close>

definition tally_rs :: "nodemap \<Rightarrow> metaTally" where
  "tally_rs rs = foldl (\<lambda>t r. recvMeta (fst r) (snd r) t) tally0 rs"


text \<open>A concrete gathering: three of four peers answer, two of them agree.\<close>

definition exMeta :: "string \<Rightarrow> int \<Rightarrow> Metadata" where
  "exMeta ck sid =
     \<lparr>Size = 100, Data = 2, Parity = 1, IsCopy = False, ObjCksum = ck, ObjVersion = [],
      CksumType = ''xxhash'', CksumValue = [], SliceID = sid\<rparr>"

definition exAnswers :: "string \<Rightarrow> error + Metadata" where
  "exAnswers n =
     (if n = ''t1'' then Inr (exMeta ''aa'' 1)
      else if n = ''t2'' then Inr (exMeta ''bb'' 2)
      else if n = ''t3'' then Inr (exMeta ''bb'' 3)
      else Inl (ErrIO ''no metafile''))"

section \<open>Get scheduler: \<open>requestSlices\<close>, \<open>restoreEncoded\<close>, \<open>restore\<close>\<close>

text \<open>
  The fields of \<open>ec.slice\<close> that the modelled code touches. \<open>obj\<close> is the payload
  holder (the file handle of the replica, or an SGL), \<open>reader\<close> a section of the replica
  or a memory reader, \<open>writer\<close> the sink of a slice that is being received or computed.
\<close>

datatype payload = FileHandleObj | SGLObj

datatype rdr = SectionHandle int int int | MemsysReader | FileHandleReader string

datatype sink = FileSink string | SGLSink

record slice =
  obj :: "payload option"
  reader :: "rdr option"
  writer :: "sink option"
  workFQN :: string
  cksum :: "(string \<times> string) option"

text \<open>The prefix of a work file, \<open>fmt.Sprintf("ec-restore-%d", id)\<close> and its siblings.\<close>

datatype workTag = EcRestore int | EcRebuild int | EcWrite int | EcRestoreRepl

record BucketProps =
  ecEnabled :: bool
  DataSlices :: int
  ParitySlices :: int
  cksumConfType :: string

record LOM =
  Bucket :: string
  ObjName :: string
  FQN :: string
  lomSize :: int
  lomCksum :: "(string \<times> string) option"
  lomVersion :: string
  Bprops :: "BucketProps option"

type_synonym uname = "string \<times> string \<times> string"

text \<open>
  Modelled from the spec: \<open>unique\<close> is not among the sources. The spec registers a sink
  "against a (peer_id, bucket, name) key so the transport layer can route incoming
  payload to it": the key is that triple.
\<close>

definition unique :: "string \<Rightarrow> LOM \<Rightarrow> uname" where
  "unique node lom = (node, Bucket lom, ObjName lom)"

text \<open>
  The local state that a restore can change: the registry of slice writers, the files of
  the mountpath (work files, replica, metafile), the slice requests handed to the
  transport, and the statistics of the xaction.
\<close>

record getState =
  writers :: "(uname \<times> slice) list"
  localFiles :: "string list"
  sliceRequests :: "string list list"
  statObjects :: int
  statBytes :: int

text \<open>
  Modelled from the spec: \<open>regWriter\<close> of the get xaction is not among the sources.
  Registering stores the sink under its key unless the key is taken, and tells whether
  it stored it.
\<close>

definition regWriter :: "uname \<Rightarrow> slice \<Rightarrow> getState \<Rightarrow> bool \<times> getState" where
  "regWriter u w s =
     (case map_of (writers s) u of
        Some _ \<Rightarrow> (False, s)
      | None \<Rightarrow> (True, s\<lparr>writers := AList.update u w (writers s)\<rparr>))"

text \<open>
  Modelled from the spec: \<open>unregWriter\<close> of the get xaction is not among the sources.
  It drops the key from the registry.
\<close>

definition unregWriter :: "uname \<Rightarrow> getState \<Rightarrow> getState" where
  "unregWriter u s = s\<lparr>writers := AList.delete u (writers s)\<rparr>"

text \<open>
  What the get scheduler asks of its surroundings: the peers' answers and the two
  orders of \<open>requestMeta\<close>, the path builder and \<open>CreateFile\<close> of the file system, the
  transport (\<open>sendByDaemonID\<close>), and the parts of a restore that run the Reed-Solomon codec
  and write the replica (\<open>restoreMainObj\<close>, \<open>restoreReplicatedFromDisk\<close>,
  \<open>restoreReplicatedFromMemory\<close>), which are taken as they come: any function on the
  local state.
\<close>

record getEnv =
  selfID :: string
  requestECMeta :: "string \<Rightarrow> error + Metadata"
  bcastOrder :: "string list"
  rangeOrder :: "string list"
  GenContentFQN :: "workTag \<Rightarrow> string"
  CreateFile :: "string \<Rightarrow> error option"
  sendByDaemonID :: "string list \<Rightarrow> error option"
  restoreMainObj ::
    "Metadata \<Rightarrow> slice option list \<Rightarrow> (int \<times> string) list \<Rightarrow> bool \<Rightarrow> getState
       \<Rightarrow> error option outcome \<times> getState"
  restoreReplicatedFromDisk ::
    "Metadata \<Rightarrow> nodemap \<Rightarrow> getState \<Rightarrow> error option outcome \<times> getState"
  restoreReplicatedFromMemory ::
    "Metadata \<Rightarrow> nodemap \<Rightarrow> getState \<Rightarrow> error option outcome \<times> getState"

text \<open>The locals of \<open>requestSlices\<close> that its loop changes.\<close>

record sliceAcc =
  slices :: "slice option list"
  idToNode :: "(int \<times> string) list"
  daemons :: "string list"
  wgSlices :: nat

text \<open>\<open>slices[i] = w\<close>: Go panics when the index is outside the array.\<close>

definition setSlice :: "slice option list \<Rightarrow> int \<Rightarrow> slice \<Rightarrow> slice option list outcome" where
  "setSlice sl i w =
     (if 0 \<le> i \<and> i < int (length sl) then Ok (sl[nat i := Some w])
      else Panics ''index out of range'')"

definition validSliceID :: "int \<Rightarrow> Metadata \<Rightarrow> bool" where
  "validSliceID sliceCnt v = (\<not> (SliceID v < 1 \<or> SliceID v > sliceCnt))"

text \<open>
  The sink for the slice that the metadata \<open>v\<close> announces: a work file on disk (whose
  creation can fail) or an SGL in memory.
\<close>

definition newWriter :: "getEnv \<Rightarrow> bool \<Rightarrow> Metadata \<Rightarrow> getState \<Rightarrow> slice outcome \<times> getState" where
  "newWriter env toDisk v s =
     (if toDisk
      then let fqn = GenContentFQN env (EcRestore (SliceID v)) in
           case CreateFile env fqn of
             Some err \<Rightarrow> (Fail err, s)
           | None \<Rightarrow>
               (Ok \<lparr>obj = None, reader = None, writer = Some (FileSink fqn), workFQN = fqn,
                     cksum = None\<rparr>,
                s\<lparr>localFiles := localFiles s @ [fqn]\<rparr>)
      else (Ok \<lparr>obj = None, reader = None, writer = Some SGLSink, workFQN = [],
                 cksum = None\<rparr>, s))"

text \<open>
  The body of \<open>for k, v := range nodes\<close>, one node after the other in the order the map
  hands them out. \<open>Fail\<close> is the early \<open>return\<close> after a failed \<open>CreateFile\<close>.
\<close>

fun requestSlicesLoop ::
  "getEnv \<Rightarrow> LOM \<Rightarrow> bool \<Rightarrow> int \<Rightarrow> nodemap \<Rightarrow> sliceAcc \<Rightarrow> getState
     \<Rightarrow> unit outcome \<times> sliceAcc \<times> getState" where
  "requestSlicesLoop env lom toDisk sliceCnt [] a s = (Ok (), a, s)"
| "requestSlicesLoop env lom toDisk sliceCnt ((k, v) # nodes) a s =
     (if SliceID v < 1 \<or> SliceID v > sliceCnt
      then requestSlicesLoop env lom toDisk sliceCnt nodes a s
      else
        case newWriter env toDisk v s of
          (Ok w, s1) \<Rightarrow>
            (case setSlice (slices a) (SliceID v - 1) w of
               Ok sl \<Rightarrow>
                 let (fresh, s2) = regWriter (unique k lom) w s1;
                     a1 = a\<lparr>slices := sl,
                            idToNode := AList.update (SliceID v) k (idToNode a),
                            wgSlices := wgSlices a + 1,
                            daemons := (if fresh then daemons a @ [k] else daemons a)\<rparr>
                 in requestSlicesLoop env lom toDisk sliceCnt nodes a1 s2
             | Fail err \<Rightarrow> (Fail err, a, s1)
             | Panics p \<Rightarrow> (Panics p, a, s1)
             | Blocks \<Rightarrow> (Blocks, a, s1))
        | (Fail err, s1) \<Rightarrow> (Fail err, a, s1)
        | (Panics p, s1) \<Rightarrow> (Panics p, a, s1)
        | (Blocks, s1) \<Rightarrow> (Blocks, a, s1))"

definition sliceAcc0 :: "int \<Rightarrow> sliceAcc" where
  "sliceAcc0 sliceCnt =
     \<lparr>slices = replicate (nat sliceCnt) None, idToNode = [], daemons = [], wgSlices = 0\<rparr>"

text \<open>
  \<open>requestSlices\<close> returns \<open>(slices, idToNode, err)\<close>. \<open>make\<close> panics on a negative
  length. A failed \<open>CreateFile\<close> returns the slices built so far; a failed send frees
  them and returns none.
\<close>

definition requestSlices ::
  "getEnv \<Rightarrow> LOM \<Rightarrow> Metadata \<Rightarrow> nodemap \<Rightarrow> bool \<Rightarrow> getState
     \<Rightarrow> (slice option list \<times> (int \<times> string) list \<times> error option) outcome \<times> getState" where
  "requestSlices env lom meta nodes toDisk s =
     (let sliceCnt = Data meta + Parity meta in
      if sliceCnt < 0 then (Panics ''makeslice: len out of range'', s)
      else
        case requestSlicesLoop env lom toDisk sliceCnt nodes (sliceAcc0 sliceCnt) s of
          (Fail err, a, s1) \<Rightarrow> (Ok (slices a, [], Some err), s1)
        | (Panics p, a, s1) \<Rightarrow> (Panics p, s1)
        | (Blocks, a, s1) \<Rightarrow> (Blocks, s1)
        | (Ok u, a, s1) \<Rightarrow>
            let s2 = s1\<lparr>sliceRequests := sliceRequests s1 @ [daemons a]\<rparr>
            in case sendByDaemonID env (daemons a) of
                 Some err \<Rightarrow> (Ok ([], [], Some err), s2)
               | None \<Rightarrow> (Ok (slices a, idToNode a, None), s2))"

text \<open>The closure \<open>freeWriters\<close> of \<open>restoreEncoded\<close>: every node is unregistered.\<close>

fun freeWriters :: "LOM \<Rightarrow> nodemap \<Rightarrow> getState \<Rightarrow> getState" where
  "freeWriters lom [] s = s"
| "freeWriters lom ((k, v) # nodes) s = freeWriters lom nodes (unregWriter (unique k lom) s)"

text \<open>
  \<open>restoreEncoded\<close>. The upload of the rebuilt slices runs in a goroutine of its own
  after the function has returned and is not part of its result.
\<close>

definition restoreEncoded ::
  "getEnv \<Rightarrow> LOM \<Rightarrow> Metadata \<Rightarrow> nodemap \<Rightarrow> bool \<Rightarrow> getState
     \<Rightarrow> error option outcome \<times> getState" where
  "restoreEncoded env lom meta nodes toDisk s =
     (case requestSlices env lom meta nodes toDisk s of
        (Ok (sl, idn, Some err), s1) \<Rightarrow> (Ok (Some err), freeWriters lom nodes s1)
      | (Ok (sl, idn, None), s1) \<Rightarrow>
          (case restoreMainObj env meta sl idn toDisk s1 of
             (Ok (Some err), s2) \<Rightarrow> (Ok (Some err), freeWriters lom nodes s2)
           | (Ok None, s2) \<Rightarrow>
               (Ok None, freeWriters lom nodes
                           (s2\<lparr>statObjects := statObjects s2 + 1,
                               statBytes := statBytes s2 + Size meta\<rparr>))
           | (Fail err, s2) \<Rightarrow> (Fail err, s2)
           | (Panics p, s2) \<Rightarrow> (Panics p, s2)
           | (Blocks, s2) \<Rightarrow> (Blocks, s2))
      | (Fail err, s1) \<Rightarrow> (Fail err, s1)
      | (Panics p, s1) \<Rightarrow> (Panics p, s1)
      | (Blocks, s1) \<Rightarrow> (Blocks, s1))"

text \<open>
  \<open>restore\<close>, the entry point; \<open>Ok err\<close> is what it returns. The error of the last
  guard is built by \<open>fmt.Errorf\<close> from \<open>meta.Data\<close> and \<open>len(nodes)\<close>, in this order.
  A \<open>nil\<close> metadata would make \<open>meta.IsCopy\<close> panic.
\<close>

definition restore ::
  "getEnv \<Rightarrow> LOM \<Rightarrow> bool \<Rightarrow> getState \<Rightarrow> error option outcome \<times> getState" where
  "restore env lom toDisk s =
     (if (case Bprops lom of None \<Rightarrow> True | Some bp \<Rightarrow> \<not> ecEnabled bp)
      then (Ok (Some ErrorECDisabled), s)
      else
        case requestMeta (selfID env) (requestECMeta env) (bcastOrder env) (rangeOrder env) of
          Inl err \<Rightarrow> (Ok (Some err), s)
        | Inr (None, nodes) \<Rightarrow> (Panics ''nil pointer dereference'', s)
        | Inr (Some meta, nodes) \<Rightarrow>
            if IsCopy meta
            then (if toDisk then restoreReplicatedFromDisk env meta nodes s
                  else restoreReplicatedFromMemory env meta nodes s)
            else if int (length nodes) < Data meta
            then (Ok (Some (ErrTooManySlicesMissing (Data meta) (int (length nodes)))), s)
            else restoreEncoded env lom meta nodes toDisk s)"

text \<open>
  A concrete restore: the bucket has EC on, the object was encoded with two data slices
  and one parity slice, and the peers hold the slices that \<open>exAnswers\<close> tells. The
  codec and the replica paths of this surrounding leave the state as it is.
\<close>

definition exLom :: LOM where
  "exLom =
     \<lparr>Bucket = ''bck'', ObjName = ''obj'', FQN = ''/mp/bck/obj'', lomSize = 100,
      lomCksum = Some (''xxhash'', ''bb''), lomVersion = ''1'',
      Bprops = Some \<lparr>ecEnabled = True, DataSlices = 2, ParitySlices = 1,
                      cksumConfType = ''xxhash''\<rparr>\<rparr>"

definition exGetEnv :: "(string \<Rightarrow> error + Metadata) \<Rightarrow> string list \<Rightarrow> getEnv" where
  "exGetEnv answers iter =
     \<lparr>selfID = ''t0'', requestECMeta = answers,
      bcastOrder = [''t1'', ''t2'', ''t0'', ''t3'', ''t4''],
      rangeOrder = iter,
      GenContentFQN = (\<lambda>tag. case tag of EcRestore i \<Rightarrow> (if i = 2 then ''/mp/w2'' else ''/mp/w'')
                                  | _ \<Rightarrow> ''/mp/other''),
      CreateFile = (\<lambda>f. None),
      sendByDaemonID = (\<lambda>ds. None),
      restoreMainObj = (\<lambda>m sl idn d s. (Ok None, s)),
      restoreReplicatedFromDisk = (\<lambda>m n s. (Ok None, s)),
      restoreReplicatedFromMemory = (\<lambda>m n s. (Ok None, s))\<rparr>"

definition exGetState :: getState where
  "exGetState =
     \<lparr>writers = [], localFiles = [], sliceRequests = [], statObjects = 0, statBytes = 0\<rparr>"

text \<open>Only one peer holds a slice of the object.\<close>

definition exFewAnswers :: "string \<Rightarrow> error + Metadata" where
  "exFewAnswers n = (if n = ''t1'' then Inr (exMeta ''bb'' 1) else Inl (ErrIO ''no metafile''))"

text \<open>A node map in which one responder carries a slice identifier out of range.\<close>

definition exNodes :: nodemap where
  "exNodes = [(''t1'', exMeta ''bb'' 1), (''t2'', exMeta ''bb'' 7), (''t3'', exMeta ''bb'' 3)]"

section \<open>Put scheduler: \<open>encode\<close>, \<open>createCopies\<close>, \<open>sendSlices\<close>\<close>

text \<open>The \<open>dataSource\<close> handed to \<open>writeRemote\<close>, and the request of an encode.\<close>

record dataSource =
  srcReader :: "rdr option"
  srcSize :: int
  srcObj :: "payload option"
  srcMetadata :: Metadata
  srcIsSlice :: bool

record Request =
  reqIsCopy :: bool

text \<open>
  The effects of the put scheduler that its surroundings can see, in the order in which
  they happen: the metafile written next to the replica, a work file created, a replica
  or a slice handed to the transport for a list of targets, the metafile removed, the
  delete request broadcast.
\<close>

datatype pevent =
    EvWriteMeta Metadata
  | EvCreateFile string
  | EvWriteRemote "string list" dataSource
  | EvRemoveMeta string
  | EvSendDel

record putState =
  events :: "pevent list"
  putObjects :: int
  putBytes :: int

text \<open>
  What the put scheduler asks of its surroundings. \<open>Tmap\<close> is the cluster map,
  \<open>HrwTargetList n\<close> the placement list \<open>cluster.HrwTargetList(lom.Uname(), smap, n)\<close>
  (the identifiers of the targets), \<open>toDisk\<close> the mode chosen by \<open>processRequest\<close>.
  The others are the results of system and library calls: writing the metafile,
  \<open>os.Stat\<close>, \<open>cmn.NewFileHandle\<close>, \<open>lom.CreateFile\<close>, the Reed-Solomon stream
  (\<open>NewStreamC\<close>, \<open>Encode\<close>), the hash of slice \<open>i\<close> and the first data slice whose
  hashing fails (if any), re-opening the reader of slice \<open>i\<close>, \<open>writeRemote\<close>,
  \<open>cluster.HrwFQN\<close> of the metafile, \<open>os.RemoveAll\<close>, and sending the delete request.
\<close>

record putEnv =
  Tmap :: "string list"
  HrwTargetList :: "int \<Rightarrow> error + string list"
  toDisk :: bool
  ctMetaWrite :: "error option"
  Stat :: "string \<Rightarrow> error + int"
  NewFileHandle :: "string \<Rightarrow> error option"
  putCreateFile :: "string \<Rightarrow> error option"
  putGenContentFQN :: "workTag \<Rightarrow> string"
  NewStreamC :: "error option"
  rsEncode :: "error option"
  sliceHash :: "nat \<Rightarrow> string"
  cksumFailsAt :: "nat option"
  reopenReader :: "nat \<Rightarrow> error option"
  writeRemote :: "string list \<Rightarrow> error option"
  HrwFQNMeta :: "error + string"
  RemoveAllMeta :: "error option"
  sendDel :: "error option"

text \<open>
  The constant \<open>cmn.ChecksumNone\<close> is not among the sources; the code only compares the
  configured checksum type with it.
\<close>

definition ChecksumNone :: string where
  "ChecksumNone = ''none''"

text \<open>
  Modelled from the spec: \<open>SliceSize\<close> is not among the sources. The spec gives
  \<open>slice_size = \<lceil>size/data\<rceil>\<close>; the quotient is rounded up by adding \<open>data - 1\<close>
  before the integer division. No caller below passes \<open>data \<le> 0\<close>.
\<close>

definition SliceSize :: "int \<Rightarrow> int \<Rightarrow> int" where
  "SliceSize fileSize data = (fileSize + data - 1) div data"

text \<open>
  Modelled from the spec: \<open>cmn.NewSectionHandle(r, offset, size, padding)\<close> is not among
  the sources. By the spec it is a section reader over the bytes from \<open>offset\<close> that is
  zero-padded: it yields the \<open>size\<close> bytes of the file at \<open>offset\<close> (as many as the
  file has there) and then \<open>padding\<close> zero bytes.
\<close>

fun sectionBytes :: "nat list \<Rightarrow> rdr \<Rightarrow> nat list" where
  "sectionBytes file (SectionHandle ofs sz pad) =
     take (nat sz) (drop (nat ofs) file) @ replicate (nat pad) 0"
| "sectionBytes file r = []"

text \<open>
  The loop of \<open>initializeSlices\<close> over the data slices, from slice \<open>i\<close> on, \<open>cnt\<close>
  slices to go: a slice that has \<open>sliceSize\<close> bytes left takes them, any other takes
  what is left and \<open>padSize\<close> of padding.
\<close>

fun dataReaders :: "int \<Rightarrow> int \<Rightarrow> int \<Rightarrow> int \<Rightarrow> nat \<Rightarrow> rdr list" where
  "dataReaders sliceSize padSize sizeLeft i 0 = []"
| "dataReaders sliceSize padSize sizeLeft i (Suc cnt) =
     (if sizeLeft < sliceSize
      then SectionHandle (i * sliceSize) sizeLeft padSize
      else SectionHandle (i * sliceSize) sliceSize 0)
     # dataReaders sliceSize padSize (sizeLeft - sliceSize) (i + 1) cnt"

record encodeCtx =
  ctxFh :: bool
  ctxSlices :: "slice option list"
  ctxSliceSize :: int
  ctxFileSize :: int
  ctxReaders :: "rdr list"
  ctxCksmReaders :: "rdr list"
  ctxHashing :: bool

definition dataSlice :: "rdr \<Rightarrow> slice option" where
  "dataSlice r =
     Some \<lparr>obj = Some FileHandleObj, reader = Some r, writer = None, workFQN = [],
           cksum = None\<rparr>"

text \<open>
  \<open>initializeSlices\<close> returns \<open>(ctx, err)\<close>. \<open>make\<close> panics on a negative length,
  the division of \<open>SliceSize\<close> on zero data slices, and the loop when it leaves
  \<open>ctx.slices\<close> (a negative parity count). \<open>ctxHashing\<close> tells whether the
  goroutine \<open>checksumDataSlices\<close> was started, the only one that ever calls \<open>Done\<close> on
  \<open>wgCksmReaders\<close>.
\<close>

definition initializeSlices ::
  "putEnv \<Rightarrow> LOM \<Rightarrow> string \<Rightarrow> int \<Rightarrow> int \<Rightarrow> (encodeCtx \<times> error option) outcome" where
  "initializeSlices env lom confType dataSlices paritySlices =
     (let totalCnt = paritySlices + dataSlices in
      if totalCnt < 0 then Panics ''makeslice: len out of range''
      else
        let ctx = \<lparr>ctxFh = False, ctxSlices = replicate (nat totalCnt) None, ctxSliceSize = 0,
                   ctxFileSize = 0, ctxReaders = [], ctxCksmReaders = [], ctxHashing = False\<rparr>
        in case Stat env (FQN lom) of
             Inl err \<Rightarrow> Ok (ctx, Some err)
           | Inr sz \<Rightarrow>
               (case NewFileHandle env (FQN lom) of
                  Some err \<Rightarrow> Ok (ctx\<lparr>ctxFileSize := sz\<rparr>, Some err)
                | None \<Rightarrow>
                    if dataSlices = 0 then Panics ''integer divide by zero''
                    else if dataSlices < 0 then Panics ''makeslice: len out of range''
                    else if paritySlices < 0 then Panics ''index out of range''
                    else
                      let sliceSize = SliceSize sz dataSlices;
                          padSize = sliceSize * dataSlices - sz;
                          rs = dataReaders sliceSize padSize sz 0 (nat dataSlices)
                      in Ok (\<lparr>ctxFh = True,
                               ctxSlices = map dataSlice rs @ replicate (nat paritySlices) None,
                               ctxSliceSize = sliceSize, ctxFileSize = sz, ctxReaders = rs,
                               ctxCksmReaders = rs,
                               ctxHashing = (confType \<noteq> ChecksumNone)\<rparr>, None)))"


text \<open>
  What \<open>checksumDataSlices\<close> has done when it ends: the data slices before the first
  failure carry their hash. The error it sends to \<open>errCksumCh\<close> is never received.
\<close>

definition withCksum :: "string \<times> string \<Rightarrow> slice option \<Rightarrow> slice option" where
  "withCksum c = map_option (\<lambda>sl. sl\<lparr>cksum := Some c\<rparr>)"

fun hashSlices ::
  "putEnv \<Rightarrow> string \<Rightarrow> nat list \<Rightarrow> slice option list \<Rightarrow> slice option list" where
  "hashSlices env confType [] sl = sl"
| "hashSlices env confType (i # is) sl =
     hashSlices env confType is (sl[i := withCksum (confType, sliceHash env i) (sl ! i)])"

definition checksumDataSlices ::
  "putEnv \<Rightarrow> string \<Rightarrow> nat \<Rightarrow> slice option list \<Rightarrow> slice option list" where
  "checksumDataSlices env confType d sl =
     hashSlices env confType
       [0..<(case cksumFailsAt env of None \<Rightarrow> d | Some j \<Rightarrow> min j d)] sl"

text \<open>
  \<open>finalizeSlices\<close>: the stream, the encoding, the wait for the hashing goroutine (which
  nothing ends when the goroutine was never started), the hashes of the parity slices.
\<close>

definition finalizeSlices ::
  "putEnv \<Rightarrow> string \<Rightarrow> encodeCtx \<Rightarrow> slice option list \<Rightarrow> int \<Rightarrow> int
     \<Rightarrow> (slice option list \<times> error option) outcome" where
  "finalizeSlices env confType ctx sl dataSlices paritySlices =
     (case NewStreamC env of
        Some err \<Rightarrow> Ok (sl, Some err)
      | None \<Rightarrow>
          (case rsEncode env of
             Some err \<Rightarrow> Ok (sl, Some err)
           | None \<Rightarrow>
               if \<not> ctxHashing ctx then Blocks
               else
                 let sl1 = checksumDataSlices env confType (nat dataSlices) sl
                 in if confType \<noteq> ChecksumNone
                    then Ok (hashSlices env confType
                               [nat dataSlices..<nat dataSlices + nat paritySlices] sl1, None)
                    else Ok (sl1, None)))"

definition generateSlicesToMemory ::
  "putEnv \<Rightarrow> LOM \<Rightarrow> string \<Rightarrow> int \<Rightarrow> int \<Rightarrow> putState
     \<Rightarrow> (slice option list \<times> error option) outcome \<times> putState" where
  "generateSlicesToMemory env lom confType dataSlices paritySlices s =
     (case initializeSlices env lom confType dataSlices paritySlices of
        Panics p \<Rightarrow> (Panics p, s)
      | Blocks \<Rightarrow> (Blocks, s)
      | Fail err \<Rightarrow> (Fail err, s)
      | Ok (ctx, Some err) \<Rightarrow> (Ok (ctxSlices ctx, Some err), s)
      | Ok (ctx, None) \<Rightarrow>
          let par = \<lparr>obj = Some SGLObj, reader = None, writer = None, workFQN = [],
                     cksum = None\<rparr>;
              sl = take (nat dataSlices) (ctxSlices ctx) @ replicate (nat paritySlices) (Some par)
          in (finalizeSlices env confType ctx sl dataSlices paritySlices, s))"

text \<open>
  The loop of \<open>generateSlicesToDisk\<close> that creates one work file per parity slice,
  \<open>i\<close> running over the parity slices to come; it returns at the first file that cannot
  be created.
\<close>

fun parityFiles ::
  "putEnv \<Rightarrow> nat \<Rightarrow> nat list \<Rightarrow> slice option list \<Rightarrow> putState
     \<Rightarrow> error option \<times> slice option list \<times> putState" where
  "parityFiles env d [] sl s = (None, sl, s)"
| "parityFiles env d (i # is) sl s =
     (let fqn = putGenContentFQN env (EcWrite (int i)) in
      case putCreateFile env fqn of
        Some err \<Rightarrow> (Some err, sl, s)
      | None \<Rightarrow>
          parityFiles env d is
            (sl[i + d := Some \<lparr>obj = None, reader = None, writer = Some (FileSink fqn),
                              workFQN = fqn, cksum = None\<rparr>])
            (s\<lparr>events := events s @ [EvCreateFile fqn]\<rparr>))"

definition generateSlicesToDisk ::
  "putEnv \<Rightarrow> LOM \<Rightarrow> string \<Rightarrow> int \<Rightarrow> int \<Rightarrow> putState
     \<Rightarrow> (slice option list \<times> error option) outcome \<times> putState" where
  "generateSlicesToDisk env lom confType dataSlices paritySlices s =
     (case initializeSlices env lom confType dataSlices paritySlices of
        Panics p \<Rightarrow> (Panics p, s)
      | Blocks \<Rightarrow> (Blocks, s)
      | Fail err \<Rightarrow> (Fail err, s)
      | Ok (ctx, Some err) \<Rightarrow> (Ok (ctxSlices ctx, Some err), s)
      | Ok (ctx, None) \<Rightarrow>
          (case parityFiles env (nat dataSlices) [0..<nat paritySlices] (ctxSlices ctx) s of
             (Some err, sl, s1) \<Rightarrow> (Ok (sl, Some err), s1)
           | (None, sl, s1) \<Rightarrow>
               (finalizeSlices env confType ctx sl dataSlices paritySlices, s1)))"

text \<open>
  The closure \<open>copySlice\<close> of \<open>sendSlices\<close>, for the slice of index \<open>i\<close>: the reader is
  re-opened, the metadata cloned and completed, and the slice handed to \<open>writeRemote\<close>
  for the target \<open>targets[i+1]\<close>. \<open>Ok None\<close> is the \<open>nil\<close> error.
\<close>

definition copySlice ::
  "putEnv \<Rightarrow> LOM \<Rightarrow> Metadata \<Rightarrow> int \<Rightarrow> int \<Rightarrow> string list \<Rightarrow> slice option list \<Rightarrow> nat
     \<Rightarrow> putState \<Rightarrow> error option outcome \<times> putState" where
  "copySlice env lom meta dataSlices sliceSize targets sl i s =
     (if \<not> i < length sl then (Panics ''index out of range'', s)
      else case sl ! i of
        None \<Rightarrow> (Panics ''nil pointer dereference'', s)
      | Some sli \<Rightarrow>
          let data = (if int i < dataSlices then Some FileHandleObj else obj sli);
              opened =
                (case reader sli of
                   Some (FileHandleReader f) \<Rightarrow> Panics ''unsupported reader type''
                 | Some r \<Rightarrow> Ok (reopenReader env i, r)
                 | None \<Rightarrow>
                     if obj sli = Some SGLObj then Ok (None, MemsysReader)
                     else if workFQN sli \<noteq> []
                     then Ok (NewFileHandle env (workFQN sli), FileHandleReader (workFQN sli))
                     else Panics ''unsupported reader type'')
          in case opened of
               Panics p \<Rightarrow> (Panics p, s)
             | Blocks \<Rightarrow> (Blocks, s)
             | Fail err \<Rightarrow> (Fail err, s)
             | Ok (Some err, r) \<Rightarrow> (Ok (Some (ErrResetReader ''failed to reset reader'')), s)
             | Ok (None, r) \<Rightarrow>
                 let m1 = meta\<lparr>SliceID := int i + 1, ObjVersion := lomVersion lom\<rparr>;
                     mcopy = (case cksum sli of
                                Some (ty, val) \<Rightarrow>
                                  if SliceID m1 \<noteq> 0 then m1\<lparr>CksumType := ty, CksumValue := val\<rparr>
                                  else m1
                              | None \<Rightarrow> m1);
                     src = \<lparr>srcReader = Some r, srcSize = sliceSize, srcObj = data,
                            srcMetadata = mcopy, srcIsSlice = True\<rparr>
                 in if \<not> i + 1 < length targets then (Panics ''index out of range'', s)
                    else (Ok (writeRemote env [targets ! (i + 1)]),
                          s\<lparr>events := events s @ [EvWriteRemote [targets ! (i + 1)] src]\<rparr>))"

text \<open>
  The loop \<open>for i := 0; i < sliceCnt; i++\<close>: an error of \<open>copySlice\<close> is kept in
  \<open>copyErr\<close> and the loop goes on ("send as many as possible").
\<close>

fun copySlices ::
  "putEnv \<Rightarrow> LOM \<Rightarrow> Metadata \<Rightarrow> int \<Rightarrow> int \<Rightarrow> string list \<Rightarrow> slice option list \<Rightarrow> nat list
     \<Rightarrow> error option \<Rightarrow> putState \<Rightarrow> error option outcome \<times> putState" where
  "copySlices env lom meta dataSlices sliceSize targets sl [] copyErr s = (Ok copyErr, s)"
| "copySlices env lom meta dataSlices sliceSize targets sl (i # is) copyErr s =
     (case copySlice env lom meta dataSlices sliceSize targets sl i s of
        (Ok None, s1) \<Rightarrow> copySlices env lom meta dataSlices sliceSize targets sl is copyErr s1
      | (Ok (Some err), s1) \<Rightarrow>
          copySlices env lom meta dataSlices sliceSize targets sl is (Some err) s1
      | (Fail err, s1) \<Rightarrow> (Fail err, s1)
      | (Panics p, s1) \<Rightarrow> (Panics p, s1)
      | (Blocks, s1) \<Rightarrow> (Blocks, s1))"

text \<open>
  \<open>sendSlices\<close>. \<open>lom.Bprops()\<close> is dereferenced, a \<open>nil\<close> would panic. After the loop
  \<open>copyErr\<close> is logged and the function returns \<open>slices, nil\<close>.
\<close>

definition sendSlices ::
  "putEnv \<Rightarrow> LOM \<Rightarrow> Metadata \<Rightarrow> putState \<Rightarrow> slice option list outcome \<times> putState" where
  "sendSlices env lom meta s =
     (case Bprops lom of
        None \<Rightarrow> (Panics ''nil pointer dereference'', s)
      | Some bp \<Rightarrow>
          let totalCnt = ParitySlices bp + DataSlices bp in
          case HrwTargetList env (totalCnt + 1) of
            Inl err \<Rightarrow> (Fail err, s)
          | Inr targets \<Rightarrow>
              (case (if toDisk env
                     then generateSlicesToDisk env lom (cksumConfType bp)
                            (DataSlices bp) (ParitySlices bp) s
                     else generateSlicesToMemory env lom (cksumConfType bp)
                            (DataSlices bp) (ParitySlices bp) s) of
                 (Panics p, s1) \<Rightarrow> (Panics p, s1)
               | (Blocks, s1) \<Rightarrow> (Blocks, s1)
               | (Fail err, s1) \<Rightarrow> (Fail err, s1)
               | (Ok (sl, Some err), s1) \<Rightarrow> (Fail err, s1)
               | (Ok (sl, None), s1) \<Rightarrow>
                   let sliceSize = SliceSize (lomSize lom) (DataSlices bp);
                       sliceCnt = min totalCnt (int (length targets) - 1)
                   in case copySlices env lom meta (DataSlices bp) sliceSize targets sl
                             [0..<nat sliceCnt] None s1 of
                        (Ok copyErr, s2) \<Rightarrow> (Ok sl, s2)
                      | (Fail err, s2) \<Rightarrow> (Fail err, s2)
                      | (Panics p, s2) \<Rightarrow> (Panics p, s2)
                      | (Blocks, s2) \<Rightarrow> (Blocks, s2)))"

text \<open>
  \<open>createCopies\<close>: the replica goes to the targets that follow the first of the
  placement list. \<open>targets[1:]\<close> panics on an empty list.
\<close>

definition createCopies ::
  "putEnv \<Rightarrow> LOM \<Rightarrow> Metadata \<Rightarrow> putState \<Rightarrow> unit outcome \<times> putState" where
  "createCopies env lom metadata s =
     (case Bprops lom of
        None \<Rightarrow> (Panics ''nil pointer dereference'', s)
      | Some bp \<Rightarrow>
          (case HrwTargetList env (ParitySlices bp + 1) of
             Inl err \<Rightarrow> (Fail err, s)
           | Inr targets \<Rightarrow>
               if targets = [] then (Panics ''slice bounds out of range'', s)
               else
                 (case NewFileHandle env (FQN lom) of
                    Some err \<Rightarrow> (Fail err, s)
                  | None \<Rightarrow>
                      let nodes = tl targets;
                          src = \<lparr>srcReader = Some (FileHandleReader (FQN lom)),
                                 srcSize = lomSize lom, srcObj = None, srcMetadata = metadata,
                                 srcIsSlice = False\<rparr>;
                          s1 = s\<lparr>events := events s @ [EvWriteRemote nodes src]\<rparr>
                      in case writeRemote env nodes of
                           Some err \<Rightarrow> (Fail err, s1)
                         | None \<Rightarrow> (Ok (), s1))))"

text \<open>
  \<open>cleanup\<close>: the local metafile is removed (an error is logged and the function moves
  on) and the delete request goes to all other targets.
\<close>

definition cleanup :: "putEnv \<Rightarrow> LOM \<Rightarrow> putState \<Rightarrow> error option \<times> putState" where
  "cleanup env lom s =
     (case HrwFQNMeta env of
        Inl err \<Rightarrow> (None, s)
      | Inr fqnMeta \<Rightarrow>
          let s1 = (case RemoveAllMeta env of
                      Some err \<Rightarrow> s
                    | None \<Rightarrow> s\<lparr>events := events s @ [EvRemoveMeta fqnMeta]\<rparr>)
          in (sendDel env, s1\<lparr>events := events s1 @ [EvSendDel]\<rparr>))"

text \<open>The metadata that \<open>encode\<close> builds for the main replica.\<close>

definition mainMeta :: "Request \<Rightarrow> LOM \<Rightarrow> BucketProps \<Rightarrow> Metadata" where
  "mainMeta req lom bp =
     \<lparr>Size = lomSize lom, Data = DataSlices bp, Parity = ParitySlices bp,
      IsCopy = reqIsCopy req,
      ObjCksum = (case lomCksum lom of None \<Rightarrow> [] | Some c \<Rightarrow> snd c),
      ObjVersion = [],
      CksumType = (case lomCksum lom of None \<Rightarrow> [] | Some c \<Rightarrow> fst c),
      CksumValue = [], SliceID = 0\<rparr>"

definition reqTargets :: "Request \<Rightarrow> BucketProps \<Rightarrow> int" where
  "reqTargets req bp =
     (if \<not> reqIsCopy req then ParitySlices bp + 1 + DataSlices bp else ParitySlices bp + 1)"

text \<open>\<open>encode\<close>: the pre-flight check, the metafile, the statistics, then the dispatch.\<close>

definition encode :: "putEnv \<Rightarrow> Request \<Rightarrow> LOM \<Rightarrow> putState \<Rightarrow> unit outcome \<times> putState" where
  "encode env req lom s =
     (case Bprops lom of
        None \<Rightarrow> (Panics ''nil pointer dereference'', s)
      | Some bp \<Rightarrow>
          let meta = mainMeta req lom bp;
              targetCnt = int (length (Tmap env))
          in if targetCnt < reqTargets req bp
             then (Fail (ErrInsufficientTargets (reqTargets req bp) targetCnt), s)
             else
               (case ctMetaWrite env of
                  Some err \<Rightarrow> (Fail err, s)
                | None \<Rightarrow>
                    let s1 = s\<lparr>events := events s @ [EvWriteMeta meta],
                               putObjects := putObjects s + 1,
                               putBytes := putBytes s + lomSize lom\<rparr>
                    in if IsCopy meta
                       then (case createCopies env lom meta s1 of
                               (Fail err, s2) \<Rightarrow> (Fail err, snd (cleanup env lom s2))
                             | r \<Rightarrow> r)
                       else (case sendSlices env lom meta s1 of
                               (Fail err, s2) \<Rightarrow> (Fail err, snd (cleanup env lom s2))
                             | (Ok sl, s2) \<Rightarrow> (Ok (), s2)
                             | (Panics p, s2) \<Rightarrow> (Panics p, s2)
                             | (Blocks, s2) \<Rightarrow> (Blocks, s2))))"


section \<open>Put scheduler: the loop of \<open>putJogger.run\<close>\<close>

definition putBatchSize :: nat where
  "putBatchSize = 8"

text \<open>
  What a \<open>select\<close> takes. The first one has the cases \<open>putCh\<close>, \<open>stopCh\<close> and
  \<open>default\<close>; the second one the cases \<open>putCh\<close>, \<open>xactCh\<close> and \<open>stopCh\<close>, and it waits
  until one of them is ready. Which case is taken depends on what the channels hold and,
  among the ready ones, on the choice of the Go runtime.
\<close>

datatype select1 = Sel1Put | Sel1Stop | Sel1Default

datatype select2 = Sel2Put | Sel2Xact | Sel2Stop

text \<open>
  What the worker does, in order: \<open>HighPut\<close> is a PUT request processed by the first
  \<open>select\<close>; \<open>AllQueues c\<close> is the second \<open>select\<close>, in which the ec-encode queue can be
  served, taking the case \<open>c\<close> (and processing the request it received, if any);
  \<open>Stopped\<close> is the stop signal taken by the first \<open>select\<close>.
\<close>

datatype runEvent = HighPut | AllQueues select2 | Stopped

text \<open>
  The loop, from the value of \<open>putsDone\<close> at the top of the \<open>for\<close>. Each pass takes one
  pair of choices: what the first \<open>select\<close> takes and what the second one takes if the
  pass reaches it. The loop ends with a stop signal; a list of choices that runs out
  describes the passes made so far.
\<close>

fun run :: "nat \<Rightarrow> (select1 \<times> select2) list \<Rightarrow> runEvent list" where
  "run putsDone [] = []"
| "run putsDone ((Sel1Stop, c2) # cs) = [Stopped]"
| "run putsDone ((Sel1Put, c2) # cs) =
     (if putsDone + 1 < putBatchSize then HighPut # run (putsDone + 1) cs
      else HighPut #
        (case c2 of
           Sel2Stop \<Rightarrow> [AllQueues Sel2Stop]
         | _ \<Rightarrow> AllQueues c2 # run 0 cs))"
| "run putsDone ((Sel1Default, c2) # cs) =
     (case c2 of
        Sel2Stop \<Rightarrow> [AllQueues Sel2Stop]
      | _ \<Rightarrow> AllQueues c2 # run 0 cs)"

definition isAllQueues :: "runEvent \<Rightarrow> bool" where
  "isAllQueues e = (case e of AllQueues c \<Rightarrow> True | _ \<Rightarrow> False)"

section \<open>Responder: \<open>removeObjAndMeta\<close>, \<open>DispatchReq\<close>, \<open>DispatchResp\<close>\<close>

datatype ctype = MetaType | ObjectType | SliceType

datatype action = reqGet | reqPut | reqDel | reqOther int

record intraReq =
  act :: action
  reqMeta :: "Metadata option"
  isSlice :: bool
  sender :: string

record ObjHdr =
  hdrBck :: string
  hdrObjName :: string
  hdrSize :: int
  hdrCksumType :: string
  hdrCksumValue :: string

text \<open>
  The local state of the responder: the files of the target with their content, the
  lines written to the error log, the pending counter and the statistics of the
  xaction, and what is left unread of the payload of the request in hand.
\<close>

record respState =
  files :: "(string \<times> string) list"
  errorLog :: "string list"
  pending :: int
  respObjects :: int
  respBytes :: int
  unread :: string

text \<open>
  What the responder asks of its surroundings: \<open>cluster.HrwFQN(bck, tp, objName)\<close>,
  whether \<open>os.RemoveAll\<close> of a path fails, the outcome of \<open>trySendCT\<close>, of
  \<open>LomFromHeader\<close> and of writing a slice or a replica with its metafile.
\<close>

record respEnv =
  HrwFQN :: "ctype \<Rightarrow> string \<Rightarrow> error + string"
  RemoveAll :: "string \<Rightarrow> error option"
  trySendCT :: "error option"
  LomFromHeader :: "error option"
  writeFails :: "error option"

definition tpName :: "ctype \<Rightarrow> string" where
  "tpName tp = (case tp of MetaType \<Rightarrow> ''mt'' | ObjectType \<Rightarrow> ''ob'' | SliceType \<Rightarrow> ''ec'')"

text \<open>
  The loop of \<open>removeObjAndMeta\<close> over the content types that are left: the first path
  that cannot be built or removed ends the function with its error.
  \<open>os.RemoveAll\<close> removes the path if it is there.
\<close>

fun removeLoop ::
  "respEnv \<Rightarrow> string \<Rightarrow> ctype list \<Rightarrow> respState \<Rightarrow> error option \<times> respState" where
  "removeLoop env objName [] s = (None, s)"
| "removeLoop env objName (tp # tps) s =
     (case HrwFQN env tp objName of
        Inl err \<Rightarrow> (Some err, s)
      | Inr fqnMeta \<Rightarrow>
          (case RemoveAll env fqnMeta of
             Some err \<Rightarrow> (Some (ErrRemoving (tpName tp) fqnMeta), s)
           | None \<Rightarrow>
               removeLoop env objName tps (s\<lparr>files := AList.delete fqnMeta (files s)\<rparr>)))"

definition removeObjAndMeta :: "respEnv \<Rightarrow> string \<Rightarrow> respState \<Rightarrow> error option \<times> respState" where
  "removeObjAndMeta env objName s = removeLoop env objName [MetaType, ObjectType, SliceType] s"

definition IncPending :: "respState \<Rightarrow> respState" where
  "IncPending s = s\<lparr>pending := pending s + 1\<rparr>"

definition DecPending :: "respState \<Rightarrow> respState" where
  "DecPending s = s\<lparr>pending := pending s - 1\<rparr>"

definition logError :: "string \<Rightarrow> respState \<Rightarrow> respState" where
  "logError msg s = s\<lparr>errorLog := errorLog s @ [msg]\<rparr>"

text \<open>
  \<open>DispatchReq\<close> returns nothing. After a successful \<open>trySendCT\<close> the pending counter
  is left to the callback of the transport.
\<close>

definition DispatchReq :: "respEnv \<Rightarrow> intraReq \<Rightarrow> string \<Rightarrow> respState \<Rightarrow> respState" where
  "DispatchReq env iReq objName s =
     (let s0 = IncPending s in
      case act iReq of
        reqDel \<Rightarrow>
          (case removeObjAndMeta env objName s0 of
             (Some err, s1) \<Rightarrow> DecPending (logError ''failed to delete'' s1)
           | (None, s1) \<Rightarrow> DecPending s1)
      | reqGet \<Rightarrow>
          (case trySendCT env of
             Some err \<Rightarrow> DecPending (logError ''trySendCT'' s0)
           | None \<Rightarrow> s0)
      | _ \<Rightarrow> DecPending (logError ''Invalid request type'' s0))"

text \<open>\<open>cmn.DrainReader\<close> reads the payload to its end and drops it.\<close>

definition DrainReader :: "respState \<Rightarrow> respState" where
  "DrainReader s = s\<lparr>unread := []\<rparr>"

text \<open>
  Modelled from the spec: \<open>WriteSliceAndMeta\<close> and \<open>WriteReplicaAndMeta\<close> are not among
  the sources. By the spec the receiving side writes the payload to a work file, verifies
  it, renames it into the final SLICE or REPLICA path and then persists the sibling MD:
  on success the content file and then the metafile are there and the payload is read;
  on failure nothing is kept.
\<close>

definition writeCTAndMeta ::
  "respEnv \<Rightarrow> ctype \<Rightarrow> ObjHdr \<Rightarrow> Metadata \<Rightarrow> respState \<Rightarrow> error option \<times> respState" where
  "writeCTAndMeta env tp hdr md s =
     (case writeFails env of
        Some err \<Rightarrow> (Some err, s)
      | None \<Rightarrow>
          (case (HrwFQN env tp (hdrObjName hdr), HrwFQN env MetaType (hdrObjName hdr)) of
             (Inr fqn, Inr fqnMeta) \<Rightarrow>
               (None, s\<lparr>files := AList.update fqnMeta (ObjCksum md)
                                   (AList.update fqn (unread s) (files s)),
                         unread := []\<rparr>)
           | (Inl err, _) \<Rightarrow> (Some err, s)
           | (_, Inl err) \<Rightarrow> (Some err, s)))"

text \<open>
  \<open>DispatchResp\<close> returns nothing; \<open>DecPending\<close> is deferred and runs on every way out.
  The payload \<open>object\<close> is what \<open>unread\<close> holds on entry.
\<close>

definition DispatchResp :: "respEnv \<Rightarrow> intraReq \<Rightarrow> ObjHdr \<Rightarrow> respState \<Rightarrow> respState" where
  "DispatchResp env iReq hdr s =
     (let s0 = IncPending s in
      case act iReq of
        reqPut \<Rightarrow>
          (case reqMeta iReq of
             None \<Rightarrow> DecPending (logError ''no metadata in request'' (DrainReader s0))
           | Some meta \<Rightarrow>
               let (err, s1) =
                     (if isSlice iReq then writeCTAndMeta env SliceType hdr meta s0
                      else case LomFromHeader env of
                             Some e \<Rightarrow> (Some e, s0)
                           | None \<Rightarrow> writeCTAndMeta env ObjectType hdr meta s0)
               in case err of
                    Some e \<Rightarrow> DecPending (logError ''write failed'' (DrainReader s1))
                  | None \<Rightarrow>
                      DecPending (s1\<lparr>respObjects := respObjects s1 + 1,
                                      respBytes := respBytes s1 + hdrSize hdr\<rparr>))
      | _ \<Rightarrow> DecPending (logError ''Invalid request type'' s0))"


section \<open>Verification: the metadata majority of \<open>requestMeta\<close>\<close>

lemma gatherMetas_foldl:
  "gatherMetas self rq ns t = foldl (\<lambda>t r. recvMeta (fst r) (snd r) t) t (responses self rq ns)"
  by (induction ns arbitrary: t) (auto split: sum.splits)

lemma freq_Nil: "freq v [] = 0" by (simp add: freq_def)

lemma freq_snoc: "freq v (rs @ [r]) = freq v rs + (if ObjCksum (snd r) = v then 1 else 0)"
  by (simp add: freq_def)

lemma freq_nonneg: "0 \<le> freq v rs" by (simp add: freq_def)


lemma tally_rs_snoc: "tally_rs (rs @ [r]) = recvMeta (fst r) (snd r) (tally_rs rs)"
  by (simp add: tally_rs_def)

lemma update_fresh: "k \<notin> fst ` set al \<Longrightarrow> AList.update k v al = al @ [(k, v)]"
  by (induction al) auto

lemma tally_chk: "chk (tally_rs rs) v = freq v rs"
  by (induction rs rule: rev_induct)
     (auto simp: tally_rs_snoc recvMeta_def Let_def freq_snoc tally_rs_def tally0_def freq_Nil)

lemma tally_metas: "distinct (map fst rs) \<Longrightarrow> metas (tally_rs rs) = rs"
proof (induction rs rule: rev_induct)
  case Nil
  then show ?case by (simp add: tally_rs_def tally0_def)
next
  case (snoc r rs)
  then have "fst r \<notin> fst ` set rs" by auto
  with snoc show ?case
    by (simp add: tally_rs_snoc recvMeta_def Let_def update_fresh)
qed

lemma tally_max: "freq v rs \<le> chkMax (tally_rs rs)"
proof (induction rs rule: rev_induct)
  case Nil
  then show ?case by (simp add: tally_rs_def tally0_def freq_Nil)
next
  case (snoc r rs)
  then show ?case
    using tally_chk[of rs "ObjCksum (snd r)"]
    by (auto simp: tally_rs_snoc recvMeta_def Let_def freq_snoc)
qed

lemma tally_first:
  "rs \<noteq> [] \<Longrightarrow> \<exists>k\<le>length rs. freq (chkVal (tally_rs rs)) (take k rs) = chkMax (tally_rs rs)
      \<and> (\<forall>w. w \<noteq> chkVal (tally_rs rs) \<longrightarrow> freq w (take k rs) < chkMax (tally_rs rs))"
proof (induction rs rule: rev_induct)
  case Nil
  then show ?case by simp
next
  case (snoc r rs)
  let ?c = "ObjCksum (snd r)"
  let ?t = "tally_rs rs"
  have chkc: "chk ?t ?c = freq ?c rs" by (rule tally_chk)
  show ?case
  proof (cases "freq ?c rs + 1 > chkMax ?t")
    case True
    have "\<forall>w. w \<noteq> ?c \<longrightarrow> freq w (rs @ [r]) < freq ?c rs + 1"
    proof (intro allI impI)
      fix w assume "w \<noteq> ?c"
      then have "freq w (rs @ [r]) = freq w rs" by (simp add: freq_snoc)
      moreover have "freq w rs \<le> chkMax ?t" by (rule tally_max)
      ultimately show "freq w (rs @ [r]) < freq ?c rs + 1" using True by linarith
    qed
    then show ?thesis using True chkc
      by (intro exI[of _ "length (rs @ [r])"]) (simp add: tally_rs_snoc recvMeta_def Let_def freq_snoc)
  next
    case False
    have ne: "rs \<noteq> []"
    proof
      assume "rs = []"
      then show False using False by (simp add: tally_rs_def tally0_def freq_Nil)
    qed
    from snoc.IH[OF ne] obtain k where k: "k \<le> length rs"
      "freq (chkVal ?t) (take k rs) = chkMax ?t"
      "\<forall>w. w \<noteq> chkVal ?t \<longrightarrow> freq w (take k rs) < chkMax ?t" by blast
    have same: "chkVal (tally_rs (rs @ [r])) = chkVal ?t" "chkMax (tally_rs (rs @ [r])) = chkMax ?t"
      using False chkc by (simp_all add: tally_rs_snoc recvMeta_def Let_def)
    show ?thesis using k same by (intro exI[of _ k]) simp
  qed
qed

lemma tally_chkVal: "rs \<noteq> [] \<Longrightarrow> freq (chkVal (tally_rs rs)) rs = chkMax (tally_rs rs)"
proof (induction rs rule: rev_induct)
  case Nil then show ?case by simp
next
  case (snoc r rs)
  let ?c = "ObjCksum (snd r)"
  have chkc: "chk (tally_rs rs) ?c = freq ?c rs" by (rule tally_chk)
  show ?case
  proof (cases "rs = []")
    case True
    then show ?thesis by (simp add: tally_rs_def tally0_def recvMeta_def Let_def freq_def)
  next
    case False
    with snoc have "freq (chkVal (tally_rs rs)) rs = chkMax (tally_rs rs)" by simp
    then show ?thesis using chkc
      by (auto simp: tally_rs_snoc recvMeta_def Let_def freq_snoc)
  qed
qed


lemma responses_keys: "fst ` set (responses self rq ns) \<subseteq> set ns"
  by (induction ns) (auto split: sum.splits)

lemma responses_distinct: "distinct ns \<Longrightarrow> distinct (map fst (responses self rq ns))"
proof (induction ns)
  case Nil then show ?case by simp
next
  case (Cons n ns)
  then show ?case using responses_keys[of self rq ns]
    by (auto split: sum.splits)
qed

lemma selectNodes_map_of:
  "distinct ks \<Longrightarrow> map_of (snd (selectNodes cv ms ks acc)) k =
     (if k \<in> set ks \<and> (\<exists>v. map_of ms k = Some v \<and> ObjCksum v = cv) then map_of ms k
      else map_of (snd acc) k)"
proof (induction ks arbitrary: acc)
  case Nil then show ?case by simp
next
  case (Cons a ks)
  then show ?case
    by (auto simp: update_conv' split: option.splits)
qed

lemma selectNodes_distinct:
  "distinct (map fst (snd acc)) \<Longrightarrow> distinct (map fst (snd (selectNodes cv ms ks acc)))"
  by (induction ks arbitrary: acc) (auto simp: distinct_update split: option.splits)

lemma selectNodes_meta_some:
  "\<exists>k\<in>set ks. \<exists>v. map_of ms k = Some v \<and> ObjCksum v = cv \<Longrightarrow>
     \<exists>m. fst (selectNodes cv ms ks acc) = Some m"
proof (induction ks arbitrary: acc)
  case Nil then show ?case by simp
next
  case (Cons a ks)
  have keep: "\<And>acc. (\<exists>m. fst acc = Some m) \<Longrightarrow> \<exists>m. fst (selectNodes cv ms ks acc) = Some m"
  proof -
    fix acc :: "Metadata option \<times> nodemap"
    assume "\<exists>m. fst acc = Some m"
    then show "\<exists>m. fst (selectNodes cv ms ks acc) = Some m"
      by (induction ks arbitrary: acc) (auto split: option.splits)
  qed
  show ?case
  proof (cases "\<exists>v. map_of ms a = Some v \<and> ObjCksum v = cv")
    case True
    then show ?thesis using keep[of "(Some (the (map_of ms a)), AList.update a (the (map_of ms a)) (snd acc))"]
      by auto
  next
    case False
    with Cons.prems have "\<exists>k\<in>set ks. \<exists>v. map_of ms k = Some v \<and> ObjCksum v = cv" by auto
    from Cons.IH[OF this] show ?thesis using False by (auto split: option.splits)
  qed
qed

lemma selectNodes_meta_in:
  "fst (selectNodes cv ms ks acc) = Some m \<Longrightarrow>
     fst acc = Some m \<or> (\<exists>k\<in>set ks. map_of ms k = Some m \<and> ObjCksum m = cv)"
proof (induction ks arbitrary: acc)
  case Nil then show ?case by simp
next
  case (Cons a ks)
  show ?case
  proof (cases "map_of ms a")
    case None
    with Cons.prems have "fst (selectNodes cv ms ks acc) = Some m" by simp
    from Cons.IH[OF this] show ?thesis by auto
  next
    case (Some v)
    show ?thesis
    proof (cases "ObjCksum v = cv")
      case True
      with Some Cons.prems
      have "fst (selectNodes cv ms ks (Some v, AList.update a v (snd acc))) = Some m" by simp
      from Cons.IH[OF this] show ?thesis using Some True by auto
    next
      case False
      with Some Cons.prems have "fst (selectNodes cv ms ks acc) = Some m" by simp
      from Cons.IH[OF this] show ?thesis by auto
    qed
  qed
qed

text \<open>
  Claim C1. Whenever at least one peer answers, \<open>requestMeta\<close> returns a metadata \<open>m\<close>
  and a node map such that: no object checksum occurs in more responses than the one of
  \<open>m\<close>; among the checksums that occur as often, the one of \<open>m\<close> reached that count
  first (after some \<open>n\<close> responses it has the count and every other value is still
  below it); the node map holds exactly the responders whose metadata carries that
  checksum, each once, all others are dropped; and \<open>m\<close> is the metadata of one of them.
  The targets of the cluster map are distinct, and the cleanup loop visits every key of
  \<open>metas\<close> once.
\<close>

theorem requestMeta_majority:
  assumes "distinct order" and "distinct iter"
    and "set iter = fst ` set (responses self answers order)"
    and "responses self answers order \<noteq> []"
  shows "\<exists>m nodes. requestMeta self answers order iter = Inr (Some m, nodes) \<and>
     (\<forall>v. freq v (responses self answers order)
            \<le> freq (ObjCksum m) (responses self answers order)) \<and>
     (\<exists>n\<le>length (responses self answers order).
        freq (ObjCksum m) (take n (responses self answers order))
          = freq (ObjCksum m) (responses self answers order) \<and>
        (\<forall>w. w \<noteq> ObjCksum m \<longrightarrow>
           freq w (take n (responses self answers order))
             < freq (ObjCksum m) (responses self answers order))) \<and>
     (\<forall>k v. map_of nodes k = Some v \<longleftrightarrow>
        (k, v) \<in> set (responses self answers order) \<and> ObjCksum v = ObjCksum m) \<and>
     distinct (map fst nodes) \<and> m \<in> snd ` set nodes"
proof -
  let ?rs = "responses self answers order"
  let ?t = "tally_rs ?rs"
  let ?res = "selectNodes (chkVal ?t) ?rs iter (None, [])"
  have dist: "distinct (map fst ?rs)" using assms(1) by (rule responses_distinct)
  have g: "gatherMetas self answers order tally0 = ?t"
    by (simp add: gatherMetas_foldl tally_rs_def)
  have m: "metas ?t = ?rs" using dist by (rule tally_metas)
  have rm: "requestMeta self answers order iter = Inr ?res"
    using assms(4) by (simp add: requestMeta_def g m Let_def)
  have cv: "freq (chkVal ?t) ?rs = chkMax ?t" using assms(4) by (rule tally_chkVal)
  have pos: "0 < chkMax ?t"
  proof -
    from assms(4) obtain r rs' where "?rs = r # rs'" by (cases ?rs) auto
    then have "0 < freq (ObjCksum (snd r)) ?rs" by (simp add: freq_def)
    then show ?thesis using tally_max[of "ObjCksum (snd r)" ?rs] by linarith
  qed
  have "\<exists>r\<in>set ?rs. ObjCksum (snd r) = chkVal ?t"
  proof (rule ccontr)
    assume "\<not> ?thesis"
    then have "filter (\<lambda>r. ObjCksum (snd r) = chkVal ?t) ?rs = []" by (auto simp: filter_empty_conv)
    then have "freq (chkVal ?t) ?rs = 0" by (simp add: freq_def)
    then show False using cv pos by simp
  qed
  then obtain k0 v0 where kv: "(k0, v0) \<in> set ?rs" "ObjCksum v0 = chkVal ?t" by auto
  then have mo: "map_of ?rs k0 = Some v0" using dist by simp
  have "k0 \<in> set iter" using kv(1) assms(3) by force
  then have "\<exists>k\<in>set iter. \<exists>v. map_of ?rs k = Some v \<and> ObjCksum v = chkVal ?t"
    using mo kv(2) by blast
  from selectNodes_meta_some[OF this] obtain mm where mm: "fst ?res = Some mm" by blast
  from selectNodes_meta_in[OF mm] obtain k1 where
    k1: "k1 \<in> set iter" "map_of ?rs k1 = Some mm" "ObjCksum mm = chkVal ?t" by auto
  have nodes: "\<And>k v. map_of (snd ?res) k = Some v \<longleftrightarrow> (k, v) \<in> set ?rs \<and> ObjCksum v = chkVal ?t"
  proof -
    fix k v
    have a: "map_of ?rs k = Some v \<Longrightarrow> k \<in> set iter"
      using assms(3) by (force dest: map_of_SomeD)
    have b: "(k, v) \<in> set ?rs \<longleftrightarrow> map_of ?rs k = Some v" using dist by simp
    show "map_of (snd ?res) k = Some v \<longleftrightarrow> (k, v) \<in> set ?rs \<and> ObjCksum v = chkVal ?t"
      unfolding b using a by (auto simp: selectNodes_map_of[OF assms(2)] split: if_splits)
  qed
  have "map_of (snd ?res) k1 = Some mm" using nodes[of k1 mm] k1 dist by auto
  then have inN: "mm \<in> snd ` set (snd ?res)" by (force dest: map_of_SomeD)
  have dn: "distinct (map fst (snd ?res))" by (rule selectNodes_distinct) simp
  have mx: "\<forall>v. freq v ?rs \<le> freq (ObjCksum mm) ?rs" using tally_max[of _ ?rs] cv k1(3) by simp
  from tally_first[OF assms(4)] have fr: "\<exists>n\<le>length ?rs.
        freq (ObjCksum mm) (take n ?rs) = freq (ObjCksum mm) ?rs \<and>
        (\<forall>w. w \<noteq> ObjCksum mm \<longrightarrow> freq w (take n ?rs) < freq (ObjCksum mm) ?rs)"
    using cv k1(3) by simp
  have rm': "requestMeta self answers order iter = Inr (Some mm, snd ?res)"
    unfolding rm using mm by (simp add: prod_eq_iff)
  show ?thesis
  proof (rule exI[of _ mm], rule exI[of _ "snd ?res"], intro conjI)
    show "requestMeta self answers order iter = Inr (Some mm, snd ?res)" by (rule rm')
    show "\<forall>v. freq v ?rs \<le> freq (ObjCksum mm) ?rs" by (rule mx)
    show "\<exists>n\<le>length ?rs.
        freq (ObjCksum mm) (take n ?rs) = freq (ObjCksum mm) ?rs \<and>
        (\<forall>w. w \<noteq> ObjCksum mm \<longrightarrow> freq w (take n ?rs) < freq (ObjCksum mm) ?rs)"
      by (rule fr)
    show "\<forall>k v. map_of (snd ?res) k = Some v \<longleftrightarrow>
        (k, v) \<in> set ?rs \<and> ObjCksum v = ObjCksum mm"
      using nodes k1(3) by simp
    show "distinct (map fst (snd ?res))" by (rule dn)
    show "mm \<in> snd ` set (snd ?res)" by (rule inN)
  qed
qed

lemma requestMeta_example:
  "requestMeta ''t0'' exAnswers [''t1'', ''t2'', ''t0'', ''t3'', ''t4''] [''t3'', ''t1'', ''t2'']
     = Inr (Some (exMeta ''bb'' 2), [(''t3'', exMeta ''bb'' 3), (''t2'', exMeta ''bb'' 2)])"
  by (simp add: requestMeta_def tally0_def recvMeta_def exAnswers_def exMeta_def Let_def)

theorem requestMeta_majority_witness:
  "distinct [''t1'', ''t2'', ''t0'', ''t3'', ''t4''] \<and> distinct [''t3'', ''t1'', ''t2''] \<and>
   set [''t3'', ''t1'', ''t2'']
     = fst ` set (responses ''t0'' exAnswers [''t1'', ''t2'', ''t0'', ''t3'', ''t4'']) \<and>
   responses ''t0'' exAnswers [''t1'', ''t2'', ''t0'', ''t3'', ''t4''] \<noteq> [] \<and>
   (\<exists>m nodes.
      requestMeta ''t0'' exAnswers [''t1'', ''t2'', ''t0'', ''t3'', ''t4''] [''t3'', ''t1'', ''t2'']
        = Inr (Some m, nodes) \<and>
      (\<forall>v. freq v (responses ''t0'' exAnswers [''t1'', ''t2'', ''t0'', ''t3'', ''t4''])
             \<le> freq (ObjCksum m) (responses ''t0'' exAnswers [''t1'', ''t2'', ''t0'', ''t3'', ''t4''])) \<and>
      (\<forall>k v. map_of nodes k = Some v \<longleftrightarrow>
         (k, v) \<in> set (responses ''t0'' exAnswers [''t1'', ''t2'', ''t0'', ''t3'', ''t4'']) \<and>
         ObjCksum v = ObjCksum m))"
proof -
  let ?order = "[''t1'', ''t2'', ''t0'', ''t3'', ''t4'']"
  let ?iter = "[''t3'', ''t1'', ''t2'']"
  have h1: "distinct ?order" by simp
  have h2: "distinct ?iter" by simp
  have h3: "set ?iter = fst ` set (responses ''t0'' exAnswers ?order)"
    by (auto simp: exAnswers_def)
  have h4: "responses ''t0'' exAnswers ?order \<noteq> []" by (simp add: exAnswers_def)
  from requestMeta_majority[OF h1 h2 h3 h4] h1 h2 h3 h4 show ?thesis by blast
qed

end
